theory Spec2Isabelle
  imports Main "HOL-Library.Word"
begin

section \<open>Placement, device identity, streams and errors\<close>

text \<open>
  The embedding follows \<^verbatim>\<open>cpp/include/rapids_triton/memory/buffer.hpp\<close>.
  \<^verbatim>\<open>MemoryType\<close>, \<^verbatim>\<open>device_id_t\<close>, \<^verbatim>\<open>cudaStream_t\<close> and \<^verbatim>\<open>TritonException\<close> are
  declared in headers that the buffer includes; they are pure value types.
  \<^verbatim>\<open>size_type\<close> is \<^verbatim>\<open>std::size_t\<close>: an unsigned 64-bit word whose subtraction wraps and
  whose comparisons are unsigned. A \<^verbatim>\<open>T*\<close> is an address counted in elements of \<^verbatim>\<open>T\<close>;
  address 0 is the null pointer. Pointer arithmetic wraps at the end of the address space
  (see \<open>offset_ptr\<close> below).
\<close>

datatype MemoryType = HostMemory | DeviceMemory

type_synonym device_id_t = int
type_synonym cudaStream_t = nat
type_synonym size_type = "64 word"
type_synonym ptr = nat

definition nullptr :: ptr where
  "nullptr = 0"

text \<open>
  Modelled from the spec: the kinds of error (\<^verbatim>\<open>rapids_triton/exceptions.hpp\<close> is not among
  the sources). Section 7 of the specification names Unsupported and Internal; the buffer
  itself constructs only \<^verbatim>\<open>Error::Internal\<close>.
\<close>

datatype Error = Internal | Unsupported

datatype TritonException = TritonException Error string

section \<open>The device runtime and memory\<close>

text \<open>
  The world outside a buffer: the contents of memory, the allocation frontier, the log of
  device-runtime calls issued so far, the status the device runtime answers to a call,
  and \<^verbatim>\<open>sizeof(T)\<close>, the size of an element in bytes.
  Host and device storage share one address space. \<open>mem\<close> holds the contents in stream
  order: a copy takes effect in \<open>mem\<close> where it is issued, which is what a later operation
  on the same stream, or the host after synchronising that stream, observes.
\<close>

datatype cudaError_t = cudaSuccess | cudaError string

datatype cuda_call = SetDevice device_id_t | StreamSynchronize cudaStream_t

record 'a world =
  mem :: "ptr \<Rightarrow> 'a"
  brk :: ptr
  calls :: "cuda_call list"
  runtime :: "cuda_call \<Rightarrow> cudaError_t"
  sizeof_T :: nat

text \<open>
  \<^verbatim>\<open>p + n\<close> for a \<^verbatim>\<open>T*\<close> and a \<^verbatim>\<open>size_type\<close>: the machine adds \<^verbatim>\<open>n * sizeof(T)\<close> bytes
  modulo \<open>2 ^ 64\<close>. Counted in elements, for an element size that divides \<open>2 ^ 64\<close> and
  pointers aligned to it, that is addition modulo the number of elements the address
  space holds.
\<close>

definition address_space :: "'a world \<Rightarrow> nat" where
  "address_space w = 2 ^ 64 div sizeof_T w"

definition offset_ptr :: "'a world \<Rightarrow> ptr \<Rightarrow> size_type \<Rightarrow> ptr" where
  "offset_ptr w p n = (p + unat n) mod address_space w"

definition cudaSetDevice :: "device_id_t \<Rightarrow> 'a world \<Rightarrow> cudaError_t \<times> 'a world" where
  "cudaSetDevice device w =
     (runtime w (SetDevice device), w\<lparr>calls := calls w @ [SetDevice device]\<rparr>)"

definition cudaStreamSynchronize :: "cudaStream_t \<Rightarrow> 'a world \<Rightarrow> cudaError_t \<times> 'a world" where
  "cudaStreamSynchronize stream w =
     (runtime w (StreamSynchronize stream), w\<lparr>calls := calls w @ [StreamSynchronize stream]\<rparr>)"

text \<open>
  Modelled from the spec: \<^verbatim>\<open>cuda_check\<close> (\<^verbatim>\<open>rapids_triton/exceptions.hpp\<close> is not among the
  sources). Section 7 of the specification: an underlying device-runtime failure is an
  Internal error, signalled synchronously at the failed primitive call.
\<close>

definition cuda_check :: "cudaError_t \<Rightarrow> TritonException option" where
  "cuda_check err =
     (case err of cudaSuccess \<Rightarrow> None | cudaError msg \<Rightarrow> Some (TritonException Internal msg))"

text \<open>
  Fresh storage for \<open>n\<close> elements starts at the allocation frontier, which moves past it.
  A request for zero elements still receives an address of its own, as \<^verbatim>\<open>new T[0]\<close> does.
  The initial contents of fresh storage are not modelled: \<open>mem\<close> is left as it is.
\<close>

definition reserve :: "size_type \<Rightarrow> 'a world \<Rightarrow> ptr \<times> 'a world" where
  "reserve n w = (brk w, w\<lparr>brk := brk w + max 1 (unat n)\<rparr>)"

text \<open>\<^verbatim>\<open>std::make_unique<T[]>(size)\<close>: exhaustion of host memory is not modelled.\<close>

definition make_unique :: "size_type \<Rightarrow> 'a world \<Rightarrow> ptr \<times> 'a world" where
  "make_unique n w = reserve n w"

text \<open>
  Modelled from the spec: \<^verbatim>\<open>detail::dev_allocate\<close> (\<^verbatim>\<open>rapids_triton/memory/detail/allocate.hpp\<close>
  is not among the sources). Section 4.2 of the specification: for Device, allocate device
  memory of \<open>size\<close> elements on the selected device. Exhaustion of device memory is not
  modelled.
\<close>

definition dev_allocate :: "size_type \<Rightarrow> 'a world \<Rightarrow> ptr \<times> 'a world" where
  "dev_allocate n w = reserve n w"

text \<open>
  The transfer of \<open>len\<close> elements from address \<open>src\<close> to address \<open>dst\<close>: cell \<open>dst + i\<close>
  receives what cell \<open>src + i\<close> held, for every \<open>i < len\<close>, and every other cell is as
  before. All source elements are read before any is written. For \<open>len = 0\<close> nothing is
  written. The primitive is given ranges of memory; a range that runs past the end of the
  address space is none, and the cells the model then names beyond it are not memory.
\<close>

definition transfer :: "ptr \<Rightarrow> ptr \<Rightarrow> size_type \<Rightarrow> 'a world \<Rightarrow> 'a world" where
  "transfer dst src len w =
     w\<lparr>mem := (\<lambda>a. if dst \<le> a \<and> a < dst + unat len then mem w (src + (a - dst)) else mem w a)\<rparr>"

text \<open>
  Modelled from the spec: \<^verbatim>\<open>detail::copy\<close> as the constructors call it, with five
  arguments and no stream (\<^verbatim>\<open>rapids_triton/memory/detail/copy.hpp\<close> is not among the
  sources). Section 4.3 of the specification: transfer \<open>element_count\<close> elements from
  \<open>src_ptr\<close> to \<open>dst_ptr\<close>; the placement pair selects one of four physical paths; a copy
  of zero elements is a no-op and always succeeds. Every path has the same effect on the
  contents in stream order, so the placements do not occur on the right-hand side. A
  failure inside the primitive is not modelled.
\<close>

definition detail_copy ::
  "ptr \<Rightarrow> ptr \<Rightarrow> size_type \<Rightarrow> MemoryType \<Rightarrow> MemoryType \<Rightarrow> 'a world \<Rightarrow> 'a world" where
  "detail_copy raw_dst raw_src len dst_mem_type src_mem_type w = transfer raw_dst raw_src len w"

text \<open>
  Modelled from the spec: \<^verbatim>\<open>detail::copy\<close> as the ranged copy calls it, with six arguments,
  the fourth being the stream (same header, same section of the specification). A path
  touching device memory is issued on the given stream and the call returns once the
  operation is enqueued; in stream order its effect is that of the transfer.
\<close>

definition detail_copy_stream ::
  "ptr \<Rightarrow> ptr \<Rightarrow> size_type \<Rightarrow> cudaStream_t \<Rightarrow> MemoryType \<Rightarrow> MemoryType \<Rightarrow> 'a world \<Rightarrow> 'a world" where
  "detail_copy_stream raw_dst raw_src len stream dst_mem_type src_mem_type w =
     transfer raw_dst raw_src len w"

section \<open>The buffer\<close>

text \<open>
  \<^verbatim>\<open>data_ptr = std::variant<h_ptr, d_ptr, owned_h_ptr, owned_d_ptr>\<close>: the four ownership
  variants, in the order of their indices 0 to 3.
\<close>

datatype data_ptr = h_ptr ptr | d_ptr ptr | owned_h_ptr ptr | owned_d_ptr ptr

fun index :: "data_ptr \<Rightarrow> nat" where
  "index (h_ptr p) = 0"
| "index (d_ptr p) = 1"
| "index (owned_h_ptr p) = 2"
| "index (owned_d_ptr p) = 3"

text \<open>The private members \<^verbatim>\<open>device_\<close>, \<^verbatim>\<open>data_\<close>, \<^verbatim>\<open>size_\<close> and \<^verbatim>\<open>stream_\<close>.\<close>

record Buffer =
  device_m :: device_id_t
  data_m :: data_ptr
  size_m :: size_type
  stream_m :: cudaStream_t

fun get_raw_ptr :: "data_ptr \<Rightarrow> ptr" where
  "get_raw_ptr (h_ptr p) = p"
| "get_raw_ptr (d_ptr p) = p"
| "get_raw_ptr (owned_h_ptr p) = p"
| "get_raw_ptr (owned_d_ptr p) = p"

text \<open>
  What \<^verbatim>\<open>std::move\<close> leaves behind in a variant: the same alternative, moved from. A raw
  pointer keeps its value, a \<^verbatim>\<open>unique_ptr\<close> becomes null.
\<close>

fun moved_from :: "data_ptr \<Rightarrow> data_ptr" where
  "moved_from (h_ptr p) = h_ptr p"
| "moved_from (d_ptr p) = d_ptr p"
| "moved_from (owned_h_ptr p) = owned_h_ptr nullptr"
| "moved_from (owned_d_ptr p) = owned_d_ptr nullptr"

text \<open>
  The accessors. The source writes \<^verbatim>\<open>mem_type()\<close> as
  \<^verbatim>\<open>data_ptr.index() % 2 == 0 ? HostMemory, DeviceMemory\<close>; it is read as the conditional
  on the index of the member \<^verbatim>\<open>data_\<close>, which is how the private static \<^verbatim>\<open>copy\<close> below
  spells the same test.
\<close>

definition mem_type :: "Buffer \<Rightarrow> MemoryType" where
  "mem_type b = (if index (data_m b) mod 2 = 0 then HostMemory else DeviceMemory)"

definition size_buf :: "Buffer \<Rightarrow> size_type" where
  "size_buf b = size_m b"

definition data :: "Buffer \<Rightarrow> ptr" where
  "data b = get_raw_ptr (data_m b)"

definition device :: "Buffer \<Rightarrow> device_id_t" where
  "device b = device_m b"

definition stream :: "Buffer \<Rightarrow> cudaStream_t" where
  "stream b = stream_m b"

text \<open>
  \<^verbatim>\<open>set_stream\<close>. \<^verbatim>\<open>IS_GPU_BUILD\<close> comes from \<^verbatim>\<open>build_control.hpp\<close>, which is not among the
  sources: it is a parameter. The result is the exception thrown, if any, the buffer and
  the world. \<^verbatim>\<open>cuda_check\<close> throws before the assignment, which then does not happen.
\<close>

definition set_stream ::
  "bool \<Rightarrow> Buffer \<Rightarrow> cudaStream_t \<Rightarrow> 'a world \<Rightarrow> TritonException option \<times> Buffer \<times> 'a world" where
  "set_stream IS_GPU_BUILD b new_stream w =
     (if IS_GPU_BUILD then
        (case cudaStreamSynchronize (stream_m b) w of
           (err, w1) \<Rightarrow>
             (case cuda_check err of
                Some e \<Rightarrow> (Some e, b, w1)
              | None \<Rightarrow> (None, b\<lparr>stream_m := new_stream\<rparr>, w1)))
      else (None, b\<lparr>stream_m := new_stream\<rparr>, w))"

text \<open>
  \<^verbatim>\<open>allocate\<close> is declared static and names \<^verbatim>\<open>device_\<close>; every call is from a constructor's
  initialiser of \<^verbatim>\<open>data_\<close>, after \<^verbatim>\<open>device_\<close> has been initialised, so the member is passed
  in. The result is the exception or the new variant, and the world.
\<close>

definition allocate ::
  "bool \<Rightarrow> device_id_t \<Rightarrow> size_type \<Rightarrow> MemoryType \<Rightarrow> 'a world \<Rightarrow>
     (TritonException + data_ptr) \<times> 'a world" where
  "allocate IS_GPU_BUILD dev n memory_type w =
     (if memory_type = DeviceMemory then
        (if IS_GPU_BUILD then
           (case cudaSetDevice dev w of
              (err, w1) \<Rightarrow>
                (case cuda_check err of
                   Some e \<Rightarrow> (Inl e, w1)
                 | None \<Rightarrow> (case dev_allocate n w1 of (p, w2) \<Rightarrow> (Inr (owned_d_ptr p), w2))))
         else
           (Inl (TritonException Internal
                   ''DeviceMemory requested in CPU-only build of FIL backend''), w))
      else (case make_unique n w of (p, w1) \<Rightarrow> (Inr (owned_h_ptr p), w1)))"

text \<open>
  The private static \<^verbatim>\<open>copy(dst, src, len, stream)\<close> of the constructors. Its \<^verbatim>\<open>stream\<close>
  parameter is not used by the body. It declares \<^verbatim>\<open>dst\<close> and \<^verbatim>\<open>src\<close> by value, as
  \<^verbatim>\<open>get_raw_ptr\<close> declares its argument; a \<^verbatim>\<open>data_ptr\<close> holds \<^verbatim>\<open>unique_ptr\<close> alternatives
  and is not copied: the functions read the caller's variants, which stay as they are.
\<close>

definition Buffer_copy ::
  "data_ptr \<Rightarrow> data_ptr \<Rightarrow> size_type \<Rightarrow> cudaStream_t \<Rightarrow> 'a world \<Rightarrow> 'a world" where
  "Buffer_copy dst src len strm w =
     (let raw_dst = get_raw_ptr dst;
          raw_src = get_raw_ptr src;
          dst_mem_type = (if index dst mod 2 = 0 then HostMemory else DeviceMemory);
          src_mem_type = (if index src mod 2 = 0 then HostMemory else DeviceMemory)
      in detail_copy raw_dst raw_src len dst_mem_type src_mem_type w)"

subsection \<open>Constructors\<close>

text \<open>\<^verbatim>\<open>Buffer()\<close>.\<close>

definition Buffer_default :: Buffer where
  "Buffer_default = \<lparr>device_m = 0, data_m = h_ptr nullptr, size_m = 0, stream_m = 0\<rparr>"

text \<open>\<^verbatim>\<open>Buffer(size, memory_type, device, stream)\<close>: the owning constructor.\<close>

definition Buffer_sized ::
  "bool \<Rightarrow> size_type \<Rightarrow> MemoryType \<Rightarrow> device_id_t \<Rightarrow> cudaStream_t \<Rightarrow> 'a world \<Rightarrow>
     (TritonException + Buffer) \<times> 'a world" where
  "Buffer_sized IS_GPU_BUILD n memory_type dev strm w =
     (case allocate IS_GPU_BUILD dev n memory_type w of
        (Inl e, w1) \<Rightarrow> (Inl e, w1)
      | (Inr p, w1) \<Rightarrow>
          (Inr \<lparr>device_m = dev, data_m = p, size_m = n, stream_m = strm\<rparr>, w1))"

text \<open>
  \<^verbatim>\<open>Buffer(input_data, size, memory_type, device, stream)\<close>: the non-owning constructor.
  Its initialiser is \<^verbatim>\<open>data_{input_data}\<close>: \<^verbatim>\<open>memory_type\<close> is not consulted. The
  alternatives \<^verbatim>\<open>h_ptr\<close> and \<^verbatim>\<open>d_ptr\<close> are the same type \<^verbatim>\<open>T*\<close>, so the pointer alone names
  neither; the model takes the first, index 0, which is also the one \<^verbatim>\<open>Buffer()\<close> names.
\<close>

definition Buffer_from_ptr ::
  "ptr \<Rightarrow> size_type \<Rightarrow> MemoryType \<Rightarrow> device_id_t \<Rightarrow> cudaStream_t \<Rightarrow> Buffer" where
  "Buffer_from_ptr input_data n memory_type dev strm =
     \<lparr>device_m = dev, data_m = h_ptr input_data, size_m = n, stream_m = strm\<rparr>"

text \<open>
  \<^verbatim>\<open>Buffer(other, memory_type, device)\<close>: the owning copy into a given placement.
\<close>

definition Buffer_relocated ::
  "bool \<Rightarrow> Buffer \<Rightarrow> MemoryType \<Rightarrow> device_id_t \<Rightarrow> 'a world \<Rightarrow>
     (TritonException + Buffer) \<times> 'a world" where
  "Buffer_relocated IS_GPU_BUILD other memory_type dev w =
     (case allocate IS_GPU_BUILD dev (size_m other) memory_type w of
        (Inl e, w1) \<Rightarrow> (Inl e, w1)
      | (Inr result, w1) \<Rightarrow>
          (Inr \<lparr>device_m = dev, data_m = result, size_m = size_m other,
                stream_m = stream_m other\<rparr>,
           Buffer_copy result (data_m other) (size_m other) (stream_m other) w1))"

text \<open>
  \<^verbatim>\<open>Buffer(other)\<close>: the copy constructor. It delegates with the arguments
  \<^verbatim>\<open>(other, other.mem_type(), other.device(), other.stream())\<close>. No constructor takes a
  buffer and three more arguments; the one that takes a buffer, a placement and a device
  is the owning copy above, which takes the stream from \<^verbatim>\<open>other.stream_\<close> itself. The
  model delegates to it with the first three arguments.
\<close>

definition Buffer_copied ::
  "bool \<Rightarrow> Buffer \<Rightarrow> 'a world \<Rightarrow> (TritonException + Buffer) \<times> 'a world" where
  "Buffer_copied IS_GPU_BUILD other w =
     Buffer_relocated IS_GPU_BUILD other (mem_type other) (device other) w"

text \<open>
  \<^verbatim>\<open>Buffer(Buffer&& other, memory_type)\<close>: the move constructor with a target placement.
  The result holds the new buffer, or the exception, then \<^verbatim>\<open>other\<close> as the constructor
  leaves it, and the world. Only the first branch assigns to a member of \<^verbatim>\<open>other\<close>:
  \<^verbatim>\<open>std::move(other.data_)\<close>. No branch assigns to \<^verbatim>\<open>other.size_\<close>.
\<close>

definition Buffer_moved_to ::
  "bool \<Rightarrow> Buffer \<Rightarrow> MemoryType \<Rightarrow> 'a world \<Rightarrow>
     (TritonException + Buffer) \<times> Buffer \<times> 'a world" where
  "Buffer_moved_to IS_GPU_BUILD other memory_type w =
     (if memory_type = mem_type other then
        (Inr \<lparr>device_m = device other, data_m = data_m other, size_m = size_m other,
              stream_m = stream_m other\<rparr>,
         other\<lparr>data_m := moved_from (data_m other)\<rparr>, w)
      else
        (case allocate IS_GPU_BUILD (device other) (size_m other) memory_type w of
           (Inl e, w1) \<Rightarrow> (Inl e, other, w1)
         | (Inr result, w1) \<Rightarrow>
             (Inr \<lparr>device_m = device other, data_m = result, size_m = size_m other,
                   stream_m = stream_m other\<rparr>,
              other,
              Buffer_copy result (data_m other) (size_m other) (stream_m other) w1)))"

text \<open>\<^verbatim>\<open>Buffer(Buffer&& other)\<close>: the plain move constructor.\<close>

definition Buffer_moved :: "Buffer \<Rightarrow> Buffer \<times> Buffer" where
  "Buffer_moved other =
     (\<lparr>device_m = device_m other, data_m = data_m other, size_m = size_m other,
       stream_m = stream_m other\<rparr>,
      other\<lparr>data_m := moved_from (data_m other)\<rparr>)"

section \<open>Copies between buffers\<close>

text \<open>
  \<^verbatim>\<open>copy(dst, src, dst_begin, src_begin, src_end)\<close>. The result is the exception thrown, if
  any, \<^verbatim>\<open>dst\<close> as the call leaves it, and the world. The body reads \<^verbatim>\<open>src\<close> through its
  accessors only and assigns to none of its members, so \<^verbatim>\<open>src\<close> is passed by value.
  \<^verbatim>\<open>len\<close> is a \<^verbatim>\<open>size_type\<close>: the subtraction wraps and \<^verbatim>\<open>len < 0\<close> compares unsigned.
  \<^verbatim>\<open>dst.data() + dst_begin\<close> and \<^verbatim>\<open>src.data() + src_begin\<close> are pointer arithmetic and wrap.
  The element types \<^verbatim>\<open>T\<close> and \<^verbatim>\<open>U\<close> of the two buffers are one type here.
\<close>

definition copy ::
  "bool \<Rightarrow> Buffer \<Rightarrow> Buffer \<Rightarrow> size_type \<Rightarrow> size_type \<Rightarrow> size_type \<Rightarrow> 'a world \<Rightarrow>
     TritonException option \<times> Buffer \<times> 'a world" where
  "copy IS_GPU_BUILD dst src dst_begin src_begin src_end w =
     (case (if stream dst \<noteq> stream src then set_stream IS_GPU_BUILD dst (stream src) w
            else (None, dst, w)) of
        (Some e, dst1, w1) \<Rightarrow> (Some e, dst1, w1)
      | (None, dst1, w1) \<Rightarrow>
          (let len = src_end - src_begin in
           if len < 0 \<or> src_end > size_buf src \<or> len > size_buf dst1 - dst_begin then
             (Some (TritonException Internal ''bad copy between buffers''), dst1, w1)
           else
             (let raw_dst = offset_ptr w1 (data dst1) dst_begin;
                  raw_src = offset_ptr w1 (data src) src_begin
              in (None, dst1,
                  detail_copy_stream raw_dst raw_src len (stream dst1) (mem_type dst1)
                    (mem_type src) w1))))"

text \<open>
  Modelled from the spec: \<^verbatim>\<open>Buffer::begin\<close>, which the overloads call and the buffer does
  not declare. Section 4.5 of the specification: the overloads with fewer offsets default
  \<open>dst_begin = 0\<close> and the whole source range, so \<^verbatim>\<open>begin()\<close> is the offset 0.
\<close>

definition begin_buf :: "Buffer \<Rightarrow> size_type" where
  "begin_buf b = 0"

text \<open>\<^verbatim>\<open>copy(dst, src)\<close>.\<close>

definition copy_all ::
  "bool \<Rightarrow> Buffer \<Rightarrow> Buffer \<Rightarrow> 'a world \<Rightarrow> TritonException option \<times> Buffer \<times> 'a world" where
  "copy_all IS_GPU_BUILD dst src w =
     copy IS_GPU_BUILD dst src (begin_buf dst) (begin_buf src) (begin_buf src + size_buf src) w"

text \<open>\<^verbatim>\<open>copy(dst, src, dst_begin)\<close>.\<close>

definition copy_at ::
  "bool \<Rightarrow> Buffer \<Rightarrow> Buffer \<Rightarrow> size_type \<Rightarrow> 'a world \<Rightarrow>
     TritonException option \<times> Buffer \<times> 'a world" where
  "copy_at IS_GPU_BUILD dst src dst_begin w =
     copy IS_GPU_BUILD dst src dst_begin (begin_buf src) (begin_buf src + size_buf src) w"

text \<open>
  \<^verbatim>\<open>copy(dst, src, src_begin, src_end)\<close>. The body is
  \<^verbatim>\<open>copy(dst, src, dst_begin, src.begin(), src.begin() + src_end)\<close>: it names \<^verbatim>\<open>dst_begin\<close>,
  which is not a parameter of this overload, and does not use \<^verbatim>\<open>src_begin\<close>. The model
  takes the unbound \<^verbatim>\<open>dst_begin\<close> as an argument of its own, so nothing is assumed about it.
\<close>

definition copy_range ::
  "bool \<Rightarrow> size_type \<Rightarrow> Buffer \<Rightarrow> Buffer \<Rightarrow> size_type \<Rightarrow> size_type \<Rightarrow> 'a world \<Rightarrow>
     TritonException option \<times> Buffer \<times> 'a world" where
  "copy_range IS_GPU_BUILD dst_begin dst src src_begin src_end w =
     copy IS_GPU_BUILD dst src dst_begin (begin_buf src) (begin_buf src + src_end) w"

text \<open>
  The ranged copy as a caller makes it. \<^verbatim>\<open>dst\<close> and \<^verbatim>\<open>src\<close> are references to buffer
  objects and may refer to the same one. Here the objects live in a store, \<open>dst\<close> and
  \<open>src\<close> name objects of it, and what the body assigns to the members of \<^verbatim>\<open>dst\<close> reaches
  the object that \<open>dst\<close> names.
\<close>

definition copy_refs ::
  "bool \<Rightarrow> (nat \<Rightarrow> Buffer) \<Rightarrow> nat \<Rightarrow> nat \<Rightarrow> size_type \<Rightarrow> size_type \<Rightarrow> size_type \<Rightarrow>
     'a world \<Rightarrow> TritonException option \<times> (nat \<Rightarrow> Buffer) \<times> 'a world" where
  "copy_refs IS_GPU_BUILD objects dst src dst_begin src_begin src_end w =
     (case copy IS_GPU_BUILD (objects dst) (objects src) dst_begin src_begin src_end w of
        (r, dst1, w1) \<Rightarrow> (r, objects(dst := dst1), w1))"

section \<open>Predicates of the statements\<close>

text \<open>An owning buffer holds one of the two \<^verbatim>\<open>unique_ptr\<close> alternatives.\<close>

definition owning :: "Buffer \<Rightarrow> bool" where
  "owning b = (2 \<le> index (data_m b))"

text \<open>The addresses of a buffer's elements.\<close>

definition storage :: "Buffer \<Rightarrow> ptr set" where
  "storage b = {data b ..< data b + unat (size_buf b)}"

text \<open>
  The addresses a copy of \<open>len\<close> elements to offset \<open>dst_begin\<close> of \<open>dst\<close> writes: \<open>len\<close>
  cells from \<^verbatim>\<open>dst.data() + dst_begin\<close>.
\<close>

definition written :: "'a world \<Rightarrow> Buffer \<Rightarrow> size_type \<Rightarrow> size_type \<Rightarrow> ptr set" where
  "written w dst dst_begin len =
     {offset_ptr w (data dst) dst_begin ..< offset_ptr w (data dst) dst_begin + unat len}"

text \<open>
  A buffer's storage exists in a world: its pointer and all its elements lie below the
  allocation frontier. For a borrowed pointer this is the caller's contract.
\<close>

definition within :: "'a world \<Rightarrow> Buffer \<Rightarrow> bool" where
  "within w b = (data b < brk w \<and> data b + unat (size_buf b) \<le> brk w)"

text \<open>
  A placement can be allocated: Host always, Device in a build with a device backend and
  for a device that the runtime accepts in \<^verbatim>\<open>cudaSetDevice\<close>.
\<close>

definition placement_available ::
  "bool \<Rightarrow> 'a world \<Rightarrow> MemoryType \<Rightarrow> device_id_t \<Rightarrow> bool" where
  "placement_available IS_GPU_BUILD w memory_type dev =
     (case memory_type of
        HostMemory \<Rightarrow> True
      | DeviceMemory \<Rightarrow> IS_GPU_BUILD \<and> runtime w (SetDevice dev) = cudaSuccess)"

section \<open>Concrete worlds and buffers\<close>

text \<open>
  A world whose cell at address \<open>a\<close> holds the integer \<open>a\<close>, with elements of four bytes,
  storage handed out below address 100, no device-runtime call issued yet and a device
  runtime that answers success to every call; and three buffers of three elements over
  it, the first two
  owning and on different streams, the third borrowed and on the stream of the first.
\<close>

definition example_world :: "int world" where
  "example_world =
     \<lparr>mem = (\<lambda>a. int a), brk = 100, calls = [], runtime = (\<lambda>c. cudaSuccess),
      sizeof_T = 4\<rparr>"

text \<open>The same world with a device runtime that answers an error to every call.\<close>

definition example_world_without_device :: "int world" where
  "example_world_without_device =
     \<lparr>mem = (\<lambda>a. int a), brk = 100, calls = [],
      runtime = (\<lambda>c. cudaError ''no CUDA-capable device is detected''), sizeof_T = 4\<rparr>"

definition example_host :: Buffer where
  "example_host = \<lparr>device_m = 0, data_m = owned_h_ptr 10, size_m = 3, stream_m = 1\<rparr>"

definition example_other :: Buffer where
  "example_other = \<lparr>device_m = 0, data_m = owned_h_ptr 20, size_m = 3, stream_m = 2\<rparr>"

definition example_peer :: Buffer where
  "example_peer = \<lparr>device_m = 0, data_m = h_ptr 30, size_m = 3, stream_m = 1\<rparr>"

text \<open>A store of buffer objects: object 0 is the second buffer, every other the first.\<close>

definition example_objects :: "nat \<Rightarrow> Buffer" where
  "example_objects n = (if n = 0 then example_other else example_host)"

section \<open>The device runtime, allocation and the copy primitive\<close>

lemma runtime_cases:
  obtains "runtime w c = cudaSuccess" | msg where "runtime w c = cudaError msg"
  by (cases "runtime w c") auto

lemma allocate_host:
  "allocate IS_GPU_BUILD dev n HostMemory w =
     (Inr (owned_h_ptr (brk w)), w\<lparr>brk := brk w + max 1 (unat n)\<rparr>)"
  by (simp add: allocate_def make_unique_def reserve_def)

lemma allocate_device_cpu_build:
  "allocate False dev n DeviceMemory w =
     (Inl (TritonException Internal
            ''DeviceMemory requested in CPU-only build of FIL backend''), w)"
  by (simp add: allocate_def)

lemma allocate_device_gpu_build:
  assumes "runtime w (SetDevice dev) = cudaSuccess"
  shows "allocate True dev n DeviceMemory w =
     (Inr (owned_d_ptr (brk w)),
      w\<lparr>calls := calls w @ [SetDevice dev], brk := brk w + max 1 (unat n)\<rparr>)"
  using assms
  by (simp add: allocate_def cudaSetDevice_def cuda_check_def dev_allocate_def reserve_def)

lemma allocate_device_rejected:
  assumes "runtime w (SetDevice dev) = cudaError msg"
  shows "allocate True dev n DeviceMemory w =
     (Inl (TritonException Internal msg), w\<lparr>calls := calls w @ [SetDevice dev]\<rparr>)"
  using assms
  by (simp add: allocate_def cudaSetDevice_def cuda_check_def)

lemma allocate_available:
  assumes "placement_available IS_GPU_BUILD w memory_type dev"
  shows "\<exists>p w1. allocate IS_GPU_BUILD dev n memory_type w = (Inr p, w1)
           \<and> get_raw_ptr p = brk w \<and> 2 \<le> index p
           \<and> (if index p mod 2 = 0 then HostMemory else DeviceMemory) = memory_type
           \<and> mem w1 = mem w \<and> brk w1 = brk w + max 1 (unat n)"
proof (cases memory_type)
  case HostMemory
  then show ?thesis
    by (simp add: allocate_host)
next
  case DeviceMemory
  with assms show ?thesis
    by (simp add: placement_available_def allocate_device_gpu_build)
qed

lemma mem_allocate: "mem (snd (allocate IS_GPU_BUILD dev n memory_type w)) = mem w"
  by (cases rule: runtime_cases [of w "SetDevice dev"])
     (simp_all add: allocate_def cudaSetDevice_def cuda_check_def dev_allocate_def
        make_unique_def reserve_def)


lemma mem_transfer_outside:
  "a \<notin> {dst ..< dst + unat len} \<Longrightarrow> mem (transfer dst src len w) a = mem w a"
  by (auto simp: transfer_def)

lemma mem_transfer_inside:
  "i < unat len \<Longrightarrow> mem (transfer dst src len w) (dst + i) = mem w (src + i)"
  by (auto simp: transfer_def)

lemma brk_transfer: "brk (transfer dst src len w) = brk w"
  by (simp add: transfer_def)

lemma Buffer_copy_transfer:
  "Buffer_copy dst src len strm w = transfer (get_raw_ptr dst) (get_raw_ptr src) len w"
  by (simp add: Buffer_copy_def detail_copy_def)

section \<open>Ownership variants and placement\<close>

text \<open>
  A \<open>data_ptr\<close> is one of the four alternatives and no two coincide; the alternative
  alone decides \<^verbatim>\<open>mem_type()\<close>: indices 0 and 2 are Host, 1 and 3 are Device.
\<close>

lemma mem_type_by_variant:
  "mem_type b =
     (case data_m b of
        h_ptr p \<Rightarrow> HostMemory
      | d_ptr p \<Rightarrow> DeviceMemory
      | owned_h_ptr p \<Rightarrow> HostMemory
      | owned_d_ptr p \<Rightarrow> DeviceMemory)"
  by (cases "data_m b") (simp_all add: mem_type_def)

lemma index_below_four: "index p < 4"
  by (cases p) simp_all

lemma Buffer_relocated_available:
  assumes "placement_available IS_GPU_BUILD w memory_type dev"
  shows "\<exists>c w'. Buffer_relocated IS_GPU_BUILD other memory_type dev w = (Inr c, w')
           \<and> owning c \<and> data c = brk w \<and> mem_type c = memory_type
           \<and> size_buf c = size_buf other \<and> stream c = stream other \<and> device c = dev
           \<and> w' = transfer (brk w) (data other) (size_buf other)
                    (snd (allocate IS_GPU_BUILD dev (size_buf other) memory_type w))"
proof -
  from allocate_available [OF assms, of "size_m other"]
  obtain p w1 where alloc: "allocate IS_GPU_BUILD dev (size_m other) memory_type w = (Inr p, w1)"
    and p: "get_raw_ptr p = brk w" "2 \<le> index p"
      "(if index p mod 2 = 0 then HostMemory else DeviceMemory) = memory_type"
    by blast
  then show ?thesis
    by (simp add: Buffer_relocated_def Buffer_copy_transfer owning_def data_def mem_type_def
        size_buf_def stream_def device_def)
qed

text \<open>
  C2. The claim holds for the variants and for the constructors that allocate (see
  \<open>mem_type_by_variant\<close> and \<open>Buffer_relocated_available\<close>), and fails for the non-owning
  constructor: its initialiser does not consult \<^verbatim>\<open>memory_type\<close>, so the buffer it builds
  is the same for both placements, and for a request of \<^verbatim>\<open>DeviceMemory\<close> (the default
  argument) \<^verbatim>\<open>mem_type()\<close> reports \<^verbatim>\<open>HostMemory\<close>.
\<close>

theorem raw_pointer_constructor_ignores_memory_type:
  "mem_type (Buffer_from_ptr p n DeviceMemory dev strm) = HostMemory
   \<and> Buffer_from_ptr p n DeviceMemory dev strm = Buffer_from_ptr p n HostMemory dev strm"
  by (simp add: Buffer_from_ptr_def mem_type_def)

section \<open>Requests for device placement\<close>

text \<open>
  C6. In a build with no device backend (\<^verbatim>\<open>IS_GPU_BUILD\<close> false), a request for Device
  placement fails with the Internal error of \<^verbatim>\<open>allocate\<close>, for every argument: in
  \<^verbatim>\<open>allocate\<close> itself, in the owning constructor by size, in the owning copy into a given
  placement, and in the move constructor whenever it has to relocate a host buffer. No
  buffer is produced, so no host storage stands in for the device storage asked for, and
  the world is as before: nothing has been allocated. In a build with a device backend
  and an environment whose runtime rejects \<^verbatim>\<open>cudaSetDevice\<close>, the owning constructor by
  size and the owning copy into Device placement fail with an Internal error that carries
  the runtime's message, and again nothing has been allocated.
\<close>

theorem device_placement_rejected_without_backend:
  "allocate False dev n DeviceMemory w =
     (Inl (TritonException Internal
            ''DeviceMemory requested in CPU-only build of FIL backend''), w)
   \<and> Buffer_sized False n DeviceMemory dev strm w =
     (Inl (TritonException Internal
            ''DeviceMemory requested in CPU-only build of FIL backend''), w)
   \<and> Buffer_relocated False other DeviceMemory dev w =
     (Inl (TritonException Internal
            ''DeviceMemory requested in CPU-only build of FIL backend''), w)
   \<and> (mem_type other = HostMemory \<longrightarrow>
        Buffer_moved_to False other DeviceMemory w =
          (Inl (TritonException Internal
                 ''DeviceMemory requested in CPU-only build of FIL backend''), other, w))
   \<and> (\<forall>msg. runtime w (SetDevice dev) = cudaError msg \<longrightarrow>
        fst (Buffer_sized True n DeviceMemory dev strm w) = Inl (TritonException Internal msg)
        \<and> fst (Buffer_relocated True other DeviceMemory dev w) =
            Inl (TritonException Internal msg)
        \<and> brk (snd (Buffer_sized True n DeviceMemory dev strm w)) = brk w
        \<and> brk (snd (Buffer_relocated True other DeviceMemory dev w)) = brk w)"
  by (simp add: Buffer_sized_def Buffer_relocated_def Buffer_moved_to_def
      allocate_device_cpu_build allocate_device_rejected)

text \<open>
  C6 at the first example buffer, a host buffer, and at a request for four elements, in
  a CPU-only build and in a build with a device backend whose runtime rejects every call.
\<close>

theorem device_placement_rejected_without_backend_witness:
  "mem_type example_host = HostMemory
   \<and> Buffer_moved_to False example_host DeviceMemory example_world =
       (Inl (TritonException Internal
              ''DeviceMemory requested in CPU-only build of FIL backend''),
        example_host, example_world)
   \<and> Buffer_sized False 4 DeviceMemory 0 0 example_world =
       (Inl (TritonException Internal
              ''DeviceMemory requested in CPU-only build of FIL backend''), example_world)
   \<and> runtime example_world_without_device (SetDevice 0) =
       cudaError ''no CUDA-capable device is detected''
   \<and> fst (Buffer_sized True 4 DeviceMemory 0 0 example_world_without_device) =
       Inl (TritonException Internal ''no CUDA-capable device is detected'')"
proof -
  have host: "mem_type example_host = HostMemory"
    by (simp add: example_host_def mem_type_def)
  have none: "runtime example_world_without_device (SetDevice 0) =
                cudaError ''no CUDA-capable device is detected''"
    by (simp add: example_world_without_device_def)
  from host none
    device_placement_rejected_without_backend
         [where other = example_host and w = example_world and n = 4 and dev = 0
            and strm = 0]
    device_placement_rejected_without_backend
         [where other = example_host and w = example_world_without_device and n = 4
            and dev = 0 and strm = 0]
  show ?thesis by simp
qed

section \<open>The owning constructor by size\<close>

text \<open>
  C8. The arguments are valid when the placement can be allocated: Device placement is
  asked for only in a build with a device backend and for a device that the runtime
  accepts. Then the owning constructor by size returns a buffer whose \<^verbatim>\<open>size()\<close> is the
  requested size and whose \<^verbatim>\<open>mem_type()\<close> is the requested placement.
\<close>

theorem sized_buffer_reports_size_and_placement:
  assumes "placement_available IS_GPU_BUILD w memory_type dev"
  shows "\<exists>b w'. Buffer_sized IS_GPU_BUILD n memory_type dev strm w = (Inr b, w')
           \<and> size_buf b = n \<and> mem_type b = memory_type"
proof -
  from allocate_available [OF assms, of n]
  obtain p w1 where "allocate IS_GPU_BUILD dev n memory_type w = (Inr p, w1)"
    and "(if index p mod 2 = 0 then HostMemory else DeviceMemory) = memory_type"
    by blast
  then show ?thesis
    by (simp add: Buffer_sized_def size_buf_def mem_type_def)
qed

text \<open>C8 at a request for four elements on device 0 in a build with a device backend.\<close>

theorem sized_buffer_reports_size_and_placement_witness:
  "placement_available True example_world DeviceMemory 0
   \<and> (\<exists>b w'. Buffer_sized True 4 DeviceMemory 0 7 example_world = (Inr b, w')
         \<and> size_buf b = 4 \<and> mem_type b = DeviceMemory)"
proof -
  have ok: "placement_available True example_world DeviceMemory 0"
    by (simp add: placement_available_def example_world_def)
  from ok sized_buffer_reports_size_and_placement [OF ok, of 4 7]
  show ?thesis by simp
qed

section \<open>Changing the stream\<close>

text \<open>
  C9, counterexample. In a CPU-only build \<^verbatim>\<open>set_stream(7)\<close> on a buffer of stream 1
  returns with \<^verbatim>\<open>stream()\<close> reporting 7 and no device-runtime call issued: stream 1 has
  not been synchronised.
\<close>

theorem set_stream_skips_synchronisation_in_cpu_build:
  "stream example_host = 1
   \<and> fst (set_stream False example_host 7 example_world) = None
   \<and> stream (fst (snd (set_stream False example_host 7 example_world))) = 7
   \<and> calls (snd (snd (set_stream False example_host 7 example_world))) = []"
  by (simp add: set_stream_def example_host_def example_world_def stream_def)

text \<open>
  C9, as amended. In a build with a device backend \<^verbatim>\<open>set_stream(s)\<close> issues exactly one
  device-runtime call, \<^verbatim>\<open>cudaStreamSynchronize\<close> on the stream the buffer has at entry
  (the old stream). When the runtime answers success the call returns, the stream field is
  reassigned and \<^verbatim>\<open>stream()\<close> reports \<open>s\<close>. When the runtime answers an error the call
  signals an Internal error and the buffer is as before: the synchronisation comes before
  the assignment. In a CPU-only build no synchronisation is issued, the world is
  unchanged, and \<^verbatim>\<open>stream()\<close> reports \<open>s\<close>. In every build memory is untouched.
\<close>

theorem set_stream_synchronises_old_stream_in_gpu_build:
  "case set_stream IS_GPU_BUILD b s w of
     (r, b', w') \<Rightarrow>
       (IS_GPU_BUILD \<longrightarrow>
          calls w' = calls w @ [StreamSynchronize (stream b)]
          \<and> (runtime w (StreamSynchronize (stream b)) = cudaSuccess \<longrightarrow>
                r = None \<and> b' = b\<lparr>stream_m := s\<rparr> \<and> stream b' = s)
          \<and> (\<forall>msg. runtime w (StreamSynchronize (stream b)) = cudaError msg \<longrightarrow>
                r = Some (TritonException Internal msg) \<and> b' = b))
       \<and> (\<not> IS_GPU_BUILD \<longrightarrow>
             r = None \<and> b' = b\<lparr>stream_m := s\<rparr> \<and> stream b' = s \<and> w' = w)
       \<and> mem w' = mem w \<and> brk w' = brk w"
  by (cases rule: runtime_cases [of w "StreamSynchronize (stream b)"])
     (simp_all add: set_stream_def cudaStreamSynchronize_def cuda_check_def stream_def)

text \<open>
  C9, as amended, at the first example buffer in a build with a device backend: stream 1
  is synchronised and the buffer then reports stream 7.
\<close>

theorem set_stream_synchronises_old_stream_in_gpu_build_witness:
  "runtime example_world (StreamSynchronize (stream example_host)) = cudaSuccess
   \<and> stream example_host = 1
   \<and> fst (set_stream True example_host 7 example_world) = None
   \<and> stream (fst (snd (set_stream True example_host 7 example_world))) = 7
   \<and> calls (snd (snd (set_stream True example_host 7 example_world))) =
       [StreamSynchronize 1]"
proof -
  have ok: "runtime example_world (StreamSynchronize (stream example_host)) = cudaSuccess"
    by (simp add: example_world_def)
  have old: "stream example_host = 1" and none: "calls example_world = []"
    by (simp_all add: example_host_def example_world_def stream_def)
  from ok old none set_stream_synchronises_old_stream_in_gpu_build
               [where IS_GPU_BUILD = True and b = example_host and s = 7
                  and w = example_world]
  show ?thesis
    by (auto split: prod.splits)
qed

section \<open>The ranged copy, case by case\<close>

text \<open>
  The three ways the stream reconciliation at the head of \<^verbatim>\<open>copy\<close> can go: nothing to
  reconcile or a CPU-only build, a synchronisation that succeeds, and one that fails.
\<close>

lemma offset_ptr_calls: "offset_ptr (w\<lparr>calls := c\<rparr>) p n = offset_ptr w p n"
  by (simp add: offset_ptr_def address_space_def)

lemma copy_streams_equal:
  assumes "stream dst = stream src"
  shows "copy IS_GPU_BUILD dst src dst_begin src_begin src_end w =
     (if src_end > size_buf src \<or> src_end - src_begin > size_buf dst - dst_begin
      then (Some (TritonException Internal ''bad copy between buffers''), dst, w)
      else (None, dst,
            transfer (offset_ptr w (data dst) dst_begin) (offset_ptr w (data src) src_begin)
              (src_end - src_begin) w))"
  using assms
  by (simp add: copy_def detail_copy_stream_def Let_def)

lemma copy_cpu_build:
  "copy False dst src dst_begin src_begin src_end w =
     (if src_end > size_buf src \<or> src_end - src_begin > size_buf dst - dst_begin
      then (Some (TritonException Internal ''bad copy between buffers''),
            dst\<lparr>stream_m := stream src\<rparr>, w)
      else (None, dst\<lparr>stream_m := stream src\<rparr>,
            transfer (offset_ptr w (data dst) dst_begin) (offset_ptr w (data src) src_begin)
              (src_end - src_begin) w))"
  by (simp add: copy_def set_stream_def detail_copy_stream_def Let_def size_buf_def
      data_def stream_def)

lemma copy_gpu_build_synchronised:
  assumes "stream dst \<noteq> stream src"
    and "runtime w (StreamSynchronize (stream dst)) = cudaSuccess"
  shows "copy True dst src dst_begin src_begin src_end w =
     (if src_end > size_buf src \<or> src_end - src_begin > size_buf dst - dst_begin
      then (Some (TritonException Internal ''bad copy between buffers''),
            dst\<lparr>stream_m := stream src\<rparr>,
            w\<lparr>calls := calls w @ [StreamSynchronize (stream dst)]\<rparr>)
      else (None, dst\<lparr>stream_m := stream src\<rparr>,
            transfer (offset_ptr w (data dst) dst_begin) (offset_ptr w (data src) src_begin)
              (src_end - src_begin)
              (w\<lparr>calls := calls w @ [StreamSynchronize (stream dst)]\<rparr>)))"
  using assms
  by (simp add: copy_def set_stream_def cudaStreamSynchronize_def cuda_check_def
      detail_copy_stream_def Let_def size_buf_def data_def stream_def offset_ptr_calls)

lemma copy_gpu_build_synchronise_failed:
  assumes "stream dst \<noteq> stream src"
    and "runtime w (StreamSynchronize (stream dst)) = cudaError msg"
  shows "copy True dst src dst_begin src_begin src_end w =
     (Some (TritonException Internal msg), dst,
      w\<lparr>calls := calls w @ [StreamSynchronize (stream dst)]\<rparr>)"
  using assms
  by (simp add: copy_def set_stream_def cudaStreamSynchronize_def cuda_check_def stream_def)

section \<open>Rejected copies\<close>

text \<open>
  C1, counterexample. In a CPU-only build, a copy of source offsets 0 to 5 out of a
  source of three elements on stream 1 into a destination on stream 2 signals
  \<^verbatim>\<open>bad copy between buffers\<close>, and the destination then reports stream 1: its stream has
  been changed.
\<close>

theorem rejected_copy_changes_stream:
  "size_buf example_host < 5
   \<and> fst (copy False example_other example_host 0 0 5 example_world) =
       Some (TritonException Internal ''bad copy between buffers'')
   \<and> stream (fst (snd (copy False example_other example_host 0 0 5 example_world))) = 1
   \<and> stream example_other = 2"
  by (simp add: copy_cpu_build example_host_def example_other_def size_buf_def stream_def)

text \<open>
  The two tests that can fire, as the code evaluates them in \<^verbatim>\<open>size_type\<close>: when one of
  them holds the copy signals an Internal error and writes nothing.
\<close>

lemma copy_rejected:
  assumes "size_buf src < src_end \<or> size_buf dst - dst_begin < src_end - src_begin"
  shows "case copy IS_GPU_BUILD dst src dst_begin src_begin src_end w of
           (r, dst', w') \<Rightarrow>
             (\<exists>msg. r = Some (TritonException Internal msg))
             \<and> mem w' = mem w \<and> brk w' = brk w
             \<and> device dst' = device dst \<and> size_buf dst' = size_buf dst
             \<and> data dst' = data dst \<and> mem_type dst' = mem_type dst
             \<and> (stream dst = stream src \<or> \<not> IS_GPU_BUILD
                  \<or> runtime w (StreamSynchronize (stream dst)) = cudaSuccess
                 \<longrightarrow> r = Some (TritonException Internal ''bad copy between buffers'')
                     \<and> stream dst' = stream src)
             \<and> (\<forall>msg. stream dst \<noteq> stream src \<and> IS_GPU_BUILD
                    \<and> runtime w (StreamSynchronize (stream dst)) = cudaError msg
                 \<longrightarrow> r = Some (TritonException Internal msg) \<and> dst' = dst)"
proof (cases "stream dst = stream src")
  case True
  with assms show ?thesis
    by (auto simp: copy_streams_equal)
next
  case differ: False
  show ?thesis
  proof (cases IS_GPU_BUILD)
    case False
    with assms show ?thesis
      by (auto simp: copy_cpu_build device_def size_buf_def data_def mem_type_def stream_def)
  next
    case True
    show ?thesis
    proof (cases rule: runtime_cases [of w "StreamSynchronize (stream dst)"])
      case 1
      with assms differ True show ?thesis
        by (auto simp: copy_gpu_build_synchronised device_def size_buf_def data_def
            mem_type_def stream_def)
    next
      case (2 msg)
      with assms differ True show ?thesis
        by (simp add: copy_gpu_build_synchronise_failed)
    qed
  qed
qed

text \<open>
  The conditions on the offsets, read as integers, under which one of the two tests of
  the code fires: a source range that ends beyond the source; a range longer than what
  the destination has left after a \<open>dst_begin\<close> within the destination; and a negative
  length, which wraps to a length that exceeds what the destination has left when
  \<open>dst_begin\<close> and \<open>src_begin\<close> lie within their buffers and the two sizes together stay
  below \<open>2 ^ 64\<close>.
\<close>

lemma geometry_rejected:
  fixes src_end src_begin dst_begin ssz dsz :: size_type
  assumes bad: "uint ssz < uint src_end
      \<or> uint dst_begin \<le> uint dsz
        \<and> (uint dsz - uint dst_begin < uint src_end - uint src_begin
            \<or> uint src_end - uint src_begin < 0 \<and> uint src_begin \<le> uint ssz
              \<and> uint ssz + uint dsz < 2 ^ 64)"
  shows "ssz < src_end \<or> dsz - dst_begin < src_end - src_begin"
proof (cases "uint ssz < uint src_end")
  case True
  then show ?thesis
    by (simp add: word_less_def)
next
  case False
  with bad have inside_dst: "uint dst_begin \<le> uint dsz"
    and rest: "uint dsz - uint dst_begin < uint src_end - uint src_begin
      \<or> uint src_end - uint src_begin < 0 \<and> uint src_begin \<le> uint ssz
        \<and> uint ssz + uint dsz < 2 ^ 64"
    by simp_all
  have cap: "uint (dsz - dst_begin) = uint dsz - uint dst_begin"
    using inside_dst by (simp add: uint_sub_if')
  show ?thesis
  proof (cases "uint src_begin \<le> uint src_end")
    case True
    then have len: "uint (src_end - src_begin) = uint src_end - uint src_begin"
      by (simp add: uint_sub_if')
    from True rest have "uint dsz - uint dst_begin < uint src_end - uint src_begin"
      by linarith
    with cap len show ?thesis
      by (simp add: word_less_def)
  next
    case negative: False
    then have len: "uint (src_end - src_begin) = uint src_end - uint src_begin + 2 ^ 64"
      by (simp add: uint_sub_if')
    have nonneg: "0 \<le> uint dst_begin" "0 \<le> uint src_end" "uint dsz < 2 ^ 64"
      using uint_lt2p [of dsz] by simp_all
    from negative inside_dst
    have "\<not> uint dsz - uint dst_begin < uint src_end - uint src_begin"
      by linarith
    with rest have "uint src_begin \<le> uint ssz" "uint ssz + uint dsz < 2 ^ 64"
      by simp_all
    with nonneg
    have "uint dsz - uint dst_begin < uint src_end - uint src_begin + 2 ^ 64"
      by linarith
    with cap len show ?thesis
      by (simp add: word_less_def)
  qed
qed

text \<open>
  C1, as amended. The offsets and sizes are read as the integers they denote (\<open>uint\<close>),
  and the differences are differences of integers. For every pair of buffers and all
  offsets, whenever
  \<^item> \<open>src_end > src.size()\<close>, or
  \<^item> \<open>src_end - src_begin > dst.size() - dst_begin\<close> with \<open>dst_begin \<le> dst.size()\<close>, or
  \<^item> \<open>src_end - src_begin < 0\<close> with \<open>dst_begin \<le> dst.size()\<close>,
    \<open>src_begin \<le> src.size()\<close> and \<open>src.size() + dst.size() < 2 ^ 64\<close>,

  the ranged copy signals an Internal error and writes no element: memory and the
  allocation frontier are as before, and the destination keeps its device, size, data
  pointer and placement. The destination's stream is not kept: unless the
  synchronisation of its old stream fails, the error is \<^verbatim>\<open>bad copy between buffers\<close> and
  the destination reports the source's stream when the error is signalled. When that
  synchronisation fails, the error is the runtime's and the destination is as before.
\<close>

theorem rejected_copy_writes_nothing:
  assumes "uint (size_buf src) < uint src_end
      \<or> uint dst_begin \<le> uint (size_buf dst)
        \<and> (uint (size_buf dst) - uint dst_begin < uint src_end - uint src_begin
            \<or> uint src_end - uint src_begin < 0 \<and> uint src_begin \<le> uint (size_buf src)
              \<and> uint (size_buf src) + uint (size_buf dst) < 2 ^ 64)"
  shows "case copy IS_GPU_BUILD dst src dst_begin src_begin src_end w of
           (r, dst', w') \<Rightarrow>
             (\<exists>msg. r = Some (TritonException Internal msg))
             \<and> mem w' = mem w \<and> brk w' = brk w
             \<and> device dst' = device dst \<and> size_buf dst' = size_buf dst
             \<and> data dst' = data dst \<and> mem_type dst' = mem_type dst
             \<and> (stream dst = stream src \<or> \<not> IS_GPU_BUILD
                  \<or> runtime w (StreamSynchronize (stream dst)) = cudaSuccess
                 \<longrightarrow> r = Some (TritonException Internal ''bad copy between buffers'')
                     \<and> stream dst' = stream src)
             \<and> (\<forall>msg. stream dst \<noteq> stream src \<and> IS_GPU_BUILD
                    \<and> runtime w (StreamSynchronize (stream dst)) = cudaError msg
                 \<longrightarrow> r = Some (TritonException Internal msg) \<and> dst' = dst)"
  by (rule copy_rejected) (rule geometry_rejected [OF assms])

text \<open>
  C1, as amended, at three copies between the two owning example buffers in a CPU-only
  build, one for each condition: the copy of the counterexample, whose range ends beyond
  the source; a copy of three elements to offset 2 of the destination of three; and a
  copy of negative length, from 2 to 1. Each signals the error and leaves memory as
  before, and the destination keeps its data pointer.
\<close>

theorem rejected_copy_writes_nothing_witness:
  "uint (size_buf example_host) < uint (5 :: size_type)
   \<and> fst (copy False example_other example_host 0 0 5 example_world) =
       Some (TritonException Internal ''bad copy between buffers'')
   \<and> mem (snd (snd (copy False example_other example_host 0 0 5 example_world))) =
       mem example_world
   \<and> data (fst (snd (copy False example_other example_host 0 0 5 example_world))) =
       data example_other
   \<and> uint (size_buf example_other) - uint (2 :: size_type)
       < uint (3 :: size_type) - uint (0 :: size_type)
   \<and> fst (copy False example_other example_host 2 0 3 example_world) =
       Some (TritonException Internal ''bad copy between buffers'')
   \<and> mem (snd (snd (copy False example_other example_host 2 0 3 example_world))) =
       mem example_world
   \<and> uint (1 :: size_type) - uint (2 :: size_type) < 0
   \<and> fst (copy False example_other example_host 0 2 1 example_world) =
       Some (TritonException Internal ''bad copy between buffers'')
   \<and> mem (snd (snd (copy False example_other example_host 0 2 1 example_world))) =
       mem example_world"
proof -
  have sizes: "uint (size_buf example_host) = 3" "uint (size_buf example_other) = 3"
    by (simp_all add: example_host_def example_other_def size_buf_def)
  have beyond: "uint (size_buf example_host) < uint (5 :: size_type)"
    by (simp add: sizes)
  have longer: "uint (size_buf example_other) - uint (2 :: size_type)
                  < uint (3 :: size_type) - uint (0 :: size_type)"
    by (simp add: sizes)
  have negative: "uint (1 :: size_type) - uint (2 :: size_type) < 0"
    by simp
  have first: "uint (size_buf example_host) < uint (5 :: size_type)
      \<or> uint (0 :: size_type) \<le> uint (size_buf example_other)
        \<and> (uint (size_buf example_other) - uint (0 :: size_type)
              < uint (5 :: size_type) - uint (0 :: size_type)
            \<or> uint (5 :: size_type) - uint (0 :: size_type) < 0
              \<and> uint (0 :: size_type) \<le> uint (size_buf example_host)
              \<and> uint (size_buf example_host) + uint (size_buf example_other) < 2 ^ 64)"
    using beyond by simp
  have second: "uint (size_buf example_host) < uint (3 :: size_type)
      \<or> uint (2 :: size_type) \<le> uint (size_buf example_other)
        \<and> (uint (size_buf example_other) - uint (2 :: size_type)
              < uint (3 :: size_type) - uint (0 :: size_type)
            \<or> uint (3 :: size_type) - uint (0 :: size_type) < 0
              \<and> uint (0 :: size_type) \<le> uint (size_buf example_host)
              \<and> uint (size_buf example_host) + uint (size_buf example_other) < 2 ^ 64)"
    by (simp add: sizes)
  have third: "uint (size_buf example_host) < uint (1 :: size_type)
      \<or> uint (0 :: size_type) \<le> uint (size_buf example_other)
        \<and> (uint (size_buf example_other) - uint (0 :: size_type)
              < uint (1 :: size_type) - uint (2 :: size_type)
            \<or> uint (1 :: size_type) - uint (2 :: size_type) < 0
              \<and> uint (2 :: size_type) \<le> uint (size_buf example_host)
              \<and> uint (size_buf example_host) + uint (size_buf example_other) < 2 ^ 64)"
    by (simp add: sizes)
  from beyond longer negative
    rejected_copy_writes_nothing [OF first, where IS_GPU_BUILD = False and w = example_world]
    rejected_copy_writes_nothing [OF second, where IS_GPU_BUILD = False and w = example_world]
    rejected_copy_writes_nothing [OF third, where IS_GPU_BUILD = False and w = example_world]
  show ?thesis
    by (auto split: prod.splits)
qed

text \<open>
  Outside those conditions the tests of the code are taken on wrapped differences. Two
  copies into the destination of three elements at \<open>dst_begin = 4\<close> are not rejected: one
  of three elements, which writes the cells at offsets 4 to 6 of the destination, and
  one from 2 to 1.
\<close>

lemma copy_beyond_destination:
  "fst (copy False example_other example_host 4 0 3 example_world) = None
   \<and> mem (snd (snd (copy False example_other example_host 4 0 3 example_world))) 24 = 10
   \<and> mem (snd (snd (copy False example_other example_host 4 0 3 example_world))) 26 = 12"
  by (simp add: copy_cpu_build example_host_def example_other_def size_buf_def data_def
      transfer_def offset_ptr_def address_space_def example_world_def)

lemma copy_of_wrapped_length:
  "fst (copy False example_other example_host 4 2 1 example_world) = None"
  by (simp add: copy_cpu_build example_host_def example_other_def size_buf_def)

section \<open>Copies of an empty range\<close>




section \<open>What a ranged copy leaves alone\<close>

lemma copy_dst_after:
  "fst (snd (copy IS_GPU_BUILD dst src dst_begin src_begin src_end w)) = dst
   \<or> stream dst \<noteq> stream src
     \<and> fst (snd (copy IS_GPU_BUILD dst src dst_begin src_begin src_end w)) =
         dst\<lparr>stream_m := stream src\<rparr>"
proof (cases "stream dst = stream src")
  case True
  then show ?thesis
    by (simp add: copy_streams_equal)
next
  case differ: False
  show ?thesis
  proof (cases IS_GPU_BUILD)
    case False
    with differ show ?thesis
      by (simp add: copy_cpu_build)
  next
    case True
    show ?thesis
    proof (cases rule: runtime_cases [of w "StreamSynchronize (stream dst)"])
      case 1
      with differ True show ?thesis
        by (simp add: copy_gpu_build_synchronised)
    next
      case (2 msg)
      with differ True show ?thesis
        by (simp add: copy_gpu_build_synchronise_failed)
    qed
  qed
qed

lemma copy_mem_outside:
  assumes "a \<notin> written w dst dst_begin (src_end - src_begin)"
  shows "mem (snd (snd (copy IS_GPU_BUILD dst src dst_begin src_begin src_end w))) a = mem w a"
proof -
  from assms
  have out: "a \<notin> {offset_ptr w (data dst) dst_begin
                    ..< offset_ptr w (data dst) dst_begin + unat (src_end - src_begin)}"
    by (simp add: written_def)
  show ?thesis
  proof (cases "stream dst = stream src")
    case True
    then show ?thesis
      by (simp add: copy_streams_equal mem_transfer_outside [OF out])
  next
    case differ: False
    show ?thesis
    proof (cases IS_GPU_BUILD)
      case False
      with differ show ?thesis
        by (simp add: copy_cpu_build mem_transfer_outside [OF out])
    next
      case True
      show ?thesis
      proof (cases rule: runtime_cases [of w "StreamSynchronize (stream dst)"])
        case 1
        with differ True show ?thesis
          by (simp add: copy_gpu_build_synchronised mem_transfer_outside [OF out])
      next
        case (2 msg)
        with differ True show ?thesis
          by (simp add: copy_gpu_build_synchronise_failed)
      qed
    qed
  qed
qed

lemma copy_brk:
  "brk (snd (snd (copy IS_GPU_BUILD dst src dst_begin src_begin src_end w))) = brk w"
proof (cases "stream dst = stream src")
  case True
  then show ?thesis
    by (simp add: copy_streams_equal brk_transfer)
next
  case differ: False
  show ?thesis
  proof (cases IS_GPU_BUILD)
    case False
    with differ show ?thesis
      by (simp add: copy_cpu_build brk_transfer)
  next
    case True
    show ?thesis
    proof (cases rule: runtime_cases [of w "StreamSynchronize (stream dst)"])
      case 1
      with differ True show ?thesis
        by (simp add: copy_gpu_build_synchronised brk_transfer)
    next
      case (2 msg)
      with differ True show ?thesis
        by (simp add: copy_gpu_build_synchronise_failed)
    qed
  qed
qed

text \<open>
  C10, counterexample. A copy within one buffer, from its element 1 to its element 0,
  succeeds and changes the contents of the source: element 0 held 10 and holds 11.
\<close>

theorem copy_within_one_buffer_changes_source_contents:
  "fst (copy False example_host example_host 0 1 2 example_world) = None
   \<and> data example_host \<in> storage example_host
   \<and> mem example_world (data example_host) = 10
   \<and> mem (snd (snd (copy False example_host example_host 0 1 2 example_world)))
        (data example_host) = 11"
  by (simp add: copy_cpu_build example_host_def example_world_def size_buf_def data_def
      storage_def transfer_def offset_ptr_def address_space_def)

text \<open>
  C10, as amended. The call is taken on a store of buffer objects, so that \<^verbatim>\<open>dst\<close> and
  \<^verbatim>\<open>src\<close> may be one object. For every call to the ranged copy the object \<^verbatim>\<open>src\<close> names
  is after the call as it was before, with its stream, size, placement, device and data
  pointer, and so is every object but the one \<^verbatim>\<open>dst\<close> names. Of the destination's members
  only the stream may change, and only when it differed from the source's at entry, in
  which case the destination adopts the source's stream. Every element outside the
  destination range, the \<open>len\<close> cells from \<^verbatim>\<open>dst.data() + dst_begin\<close> (pointer arithmetic,
  which wraps), is as before; in particular the contents of the source are identical
  before and after the call when its storage does not meet the destination range.
  Nothing is allocated.
\<close>

theorem copy_frame:
  "case copy_refs IS_GPU_BUILD objects dst src dst_begin src_begin src_end w of
     (r, objects', w') \<Rightarrow>
       objects' src = objects src
       \<and> stream (objects' src) = stream (objects src)
       \<and> size_buf (objects' src) = size_buf (objects src)
       \<and> mem_type (objects' src) = mem_type (objects src)
       \<and> device (objects' src) = device (objects src)
       \<and> data (objects' src) = data (objects src)
       \<and> (\<forall>b. b \<noteq> dst \<longrightarrow> objects' b = objects b)
       \<and> (objects' dst = objects dst
            \<or> stream (objects dst) \<noteq> stream (objects src)
              \<and> objects' dst = (objects dst)\<lparr>stream_m := stream (objects src)\<rparr>)
       \<and> (\<forall>a. a \<notin> written w (objects dst) dst_begin (src_end - src_begin) \<longrightarrow>
              mem w' a = mem w a)
       \<and> (storage (objects src) \<inter> written w (objects dst) dst_begin (src_end - src_begin)
             = {} \<longrightarrow>
            (\<forall>a \<in> storage (objects src). mem w' a = mem w a))
       \<and> brk w' = brk w"
proof -
  let ?out = "copy IS_GPU_BUILD (objects dst) (objects src) dst_begin src_begin src_end w"
  let ?objects' = "objects(dst := fst (snd ?out))"
  have refs: "copy_refs IS_GPU_BUILD objects dst src dst_begin src_begin src_end w =
      (fst ?out, ?objects', snd (snd ?out))"
    by (simp add: copy_refs_def case_prod_beta)
  have fields: "fst (snd ?out) = objects dst
      \<or> stream (objects dst) \<noteq> stream (objects src)
        \<and> fst (snd ?out) = (objects dst)\<lparr>stream_m := stream (objects src)\<rparr>"
    by (rule copy_dst_after)
  have source: "?objects' src = objects src"
  proof (cases "src = dst")
    case True
    with fields show ?thesis by auto
  next
    case False
    then show ?thesis by simp
  qed
  have others: "\<forall>b. b \<noteq> dst \<longrightarrow> ?objects' b = objects b"
    by simp
  have target: "?objects' dst = objects dst
      \<or> stream (objects dst) \<noteq> stream (objects src)
        \<and> ?objects' dst = (objects dst)\<lparr>stream_m := stream (objects src)\<rparr>"
    using fields by simp
  have outside: "\<forall>a. a \<notin> written w (objects dst) dst_begin (src_end - src_begin) \<longrightarrow>
                   mem (snd (snd ?out)) a = mem w a"
    by (simp add: copy_mem_outside)
  have contents: "storage (objects src)
                    \<inter> written w (objects dst) dst_begin (src_end - src_begin) = {} \<longrightarrow>
                  (\<forall>a \<in> storage (objects src). mem (snd (snd ?out)) a = mem w a)"
    using outside by blast
  have frontier: "brk (snd (snd ?out)) = brk w"
    by (rule copy_brk)
  from source others target outside contents frontier show ?thesis
    unfolding refs by simp
qed

text \<open>
  C10, as amended, at a full copy from object 1 to object 0 of the example store in a
  build with a device backend: the storages are apart, the destination adopts stream 1,
  the source object is as before and so is its element 1.
\<close>

theorem copy_frame_witness:
  "storage (example_objects 1) \<inter> written example_world (example_objects 0) 0 (3 - 0) = {}
   \<and> stream (example_objects 0) \<noteq> stream (example_objects 1)
   \<and> fst (copy_refs True example_objects 0 1 0 0 3 example_world) = None
   \<and> fst (snd (copy_refs True example_objects 0 1 0 0 3 example_world)) 0 =
       (example_objects 0)\<lparr>stream_m := stream (example_objects 1)\<rparr>
   \<and> fst (snd (copy_refs True example_objects 0 1 0 0 3 example_world)) 1 =
       example_objects 1
   \<and> mem (snd (snd (copy_refs True example_objects 0 1 0 0 3 example_world))) 11 =
       mem example_world 11"
proof -
  have objects: "example_objects 0 = example_other" "example_objects 1 = example_host"
    by (simp_all add: example_objects_def)
  have disjoint: "storage (example_objects 1)
                    \<inter> written example_world (example_objects 0) 0 (3 - 0) = {}"
    unfolding objects
    by (simp add: storage_def written_def example_host_def example_other_def
        data_def size_buf_def offset_ptr_def address_space_def example_world_def)
  have inside: "11 \<in> storage (example_objects 1)"
    unfolding objects
    by (simp add: storage_def example_host_def data_def size_buf_def)
  have streams: "stream example_other \<noteq> stream example_host"
    by (simp add: example_host_def example_other_def stream_def)
  have differ: "stream (example_objects 0) \<noteq> stream (example_objects 1)"
    unfolding objects by (rule streams)
  have fits: "\<not> (3 > size_buf example_host \<or> 3 - 0 > size_buf example_other - 0)"
    by (simp add: example_host_def example_other_def size_buf_def)
  have sync: "runtime example_world (StreamSynchronize (stream example_other)) = cudaSuccess"
    by (simp add: example_world_def)
  have copied: "copy True example_other example_host 0 0 3 example_world =
      (None, example_other\<lparr>stream_m := stream example_host\<rparr>,
       transfer (offset_ptr example_world (data example_other) 0)
         (offset_ptr example_world (data example_host) 0) 3
         (example_world\<lparr>calls := calls example_world
                                @ [StreamSynchronize (stream example_other)]\<rparr>))"
    using fits by (simp only: copy_gpu_build_synchronised [OF streams sync] if_False) simp
  have ok: "fst (copy_refs True example_objects 0 1 0 0 3 example_world) = None"
    unfolding copy_refs_def objects copied by simp
  have changed: "fst (snd (copy_refs True example_objects 0 1 0 0 3 example_world)) 0
                   \<noteq> example_objects 0"
    unfolding copy_refs_def objects copied
    by (simp add: example_host_def example_other_def stream_def)
  from disjoint inside differ ok changed
       copy_frame [where IS_GPU_BUILD = True and objects = example_objects and dst = 0
                     and src = 1 and dst_begin = 0 and src_begin = 0 and src_end = 3
                     and w = example_world]
  show ?thesis
    by (auto split: prod.splits)
qed

section \<open>The overloads with fewer offsets\<close>

lemma copy_all_is_full_copy:
  "copy_all IS_GPU_BUILD dst src w = copy IS_GPU_BUILD dst src 0 0 (size_buf src) w"
  by (simp add: copy_all_def begin_buf_def)

lemma copy_at_is_full_copy:
  "copy_at IS_GPU_BUILD dst src dst_begin w =
     copy IS_GPU_BUILD dst src dst_begin 0 (size_buf src) w"
  by (simp add: copy_at_def begin_buf_def)

lemma example_streams_agree: "stream example_peer = stream example_host"
  by (simp add: example_peer_def example_host_def stream_def)

text \<open>
  C4. The first two overloads are the full form with the omitted offsets defaulted
  (\<open>copy_all_is_full_copy\<close>, \<open>copy_at_is_full_copy\<close>). The third is not:
  \<^verbatim>\<open>copy(dst, src, src_begin, src_end)\<close> does not pass \<^verbatim>\<open>src_begin\<close> on. With a source
  holding 10, 11, 12 and \<open>src_begin = 1\<close>, \<open>src_end = 2\<close>, the full form
  \<^verbatim>\<open>copy(dst, src, 0, 1, 2)\<close> writes 11 to element 0 of the destination; the overload
  copies from source offset 0, and in every build, whatever value stands for the
  \<^verbatim>\<open>dst_begin\<close> it names, its outcome differs from that of the full form.
\<close>

theorem copy_range_ignores_src_begin:
  "\<forall>IS_GPU_BUILD dst_begin.
     copy_range IS_GPU_BUILD dst_begin example_peer example_host 1 2 example_world
       \<noteq> copy IS_GPU_BUILD example_peer example_host 0 1 2 example_world"
proof (intro allI)
  fix IS_GPU_BUILD :: bool and dst_begin :: size_type
  let ?code = "copy_range IS_GPU_BUILD dst_begin example_peer example_host 1 2 example_world"
  let ?full = "copy IS_GPU_BUILD example_peer example_host 0 1 2 example_world"
  let ?r = "offset_ptr example_world (data example_peer) dst_begin"
  have full: "?full = (None, example_peer, transfer 30 11 1 example_world)"
    by (simp add: copy_streams_equal [OF example_streams_agree])
       (simp add: example_peer_def example_host_def size_buf_def data_def offset_ptr_def
          address_space_def example_world_def)
  have code: "fst ?code \<noteq> None
              \<or> ?code = (None, example_peer, transfer ?r 10 2 example_world)"
    by (simp add: copy_range_def begin_buf_def copy_streams_equal [OF example_streams_agree])
       (simp add: example_host_def size_buf_def data_def offset_ptr_def address_space_def
          example_world_def)
  have differ: "transfer ?r 10 2 example_world \<noteq> transfer 30 11 1 example_world"
  proof
    assume "transfer ?r 10 2 example_world = transfer 30 11 1 example_world"
    then have same: "mem (transfer ?r 10 2 example_world) a
                       = mem (transfer 30 11 1 example_world) a" for a
      by simp
    from same [of ?r] have "?r = 10"
      by (simp add: transfer_def example_world_def split: if_splits)
    with same [of 30] show False
      by (simp add: transfer_def example_world_def)
  qed
  show "?code \<noteq> ?full"
    using full code differ by auto
qed

text \<open>
  The outcome of the overload when 0 stands for \<^verbatim>\<open>dst_begin\<close>: the destination receives
  10 and 11, the source's elements 0 and 1.
\<close>

lemma copy_range_at_zero:
  "fst (copy_range IS_GPU_BUILD 0 example_peer example_host 1 2 example_world) = None
   \<and> mem (snd (snd (copy_range IS_GPU_BUILD 0 example_peer example_host 1 2 example_world)))
        30 = 10
   \<and> mem (snd (snd (copy_range IS_GPU_BUILD 0 example_peer example_host 1 2 example_world)))
        31 = 11"
  by (simp add: copy_range_def begin_buf_def copy_streams_equal [OF example_streams_agree])
     (simp add: example_peer_def example_host_def size_buf_def transfer_def data_def
        example_world_def offset_ptr_def address_space_def)

section \<open>Moving a buffer to a placement\<close>

text \<open>
  C3, counterexample. In a build with a device backend, move-constructing a device
  buffer from a host buffer of three elements leaves the source as it was: it still
  reports \<^verbatim>\<open>size()\<close> 3.
\<close>

theorem move_to_other_placement_keeps_source:
  "mem_type example_host = HostMemory
   \<and> size_buf example_host = 3
   \<and> fst (snd (Buffer_moved_to True example_host DeviceMemory example_world)) = example_host
   \<and> size_buf (fst (snd (Buffer_moved_to True example_host DeviceMemory example_world))) = 3"
  by (simp add: Buffer_moved_to_def mem_type_def example_host_def allocate_device_gpu_build
      example_world_def size_buf_def device_def)

text \<open>
  C3, as amended. Move-constructing from \<open>b\<close> with the placement \<open>b\<close> has transfers
  ownership without a physical copy: the new buffer holds the variant \<open>b\<close> held, so its
  \<^verbatim>\<open>data()\<close> is the pointer \<open>b\<close> had, the source is left with the moved-from variant,
  which for an owning \<open>b\<close> holds the null pointer, and the world (memory, allocation
  frontier, runtime calls) is unchanged.
  Move-constructing with a different placement that can be allocated takes new storage
  at the allocation frontier, in the placement asked for, and copies the \<^verbatim>\<open>size()\<close>
  elements of \<open>b\<close> into it; the source buffer is left as it was, with its size and its
  data pointer.
\<close>

theorem move_to_placement:
  "(case Buffer_moved_to IS_GPU_BUILD b (mem_type b) w of
      (r, b', w') \<Rightarrow>
        (\<exists>c. r = Inr c \<and> data c = data b \<and> data_m c = data_m b \<and> size_buf c = size_buf b
              \<and> mem_type c = mem_type b \<and> stream c = stream b \<and> device c = device b
              \<and> owning c = owning b)
        \<and> b' = b\<lparr>data_m := moved_from (data_m b)\<rparr>
        \<and> (owning b \<longrightarrow> data b' = nullptr)
        \<and> (\<not> owning b \<longrightarrow> b' = b)
        \<and> w' = w)
   \<and> (memory_type \<noteq> mem_type b
        \<and> placement_available IS_GPU_BUILD w memory_type (device b) \<longrightarrow>
       (case Buffer_moved_to IS_GPU_BUILD b memory_type w of
          (r, b', w') \<Rightarrow>
            (\<exists>c. r = Inr c \<and> owning c \<and> mem_type c = memory_type \<and> data c = brk w
                  \<and> size_buf c = size_buf b \<and> stream c = stream b \<and> device c = device b
                  \<and> (\<forall>i < unat (size_buf b). mem w' (data c + i) = mem w (data b + i)))
            \<and> brk w' = brk w + max 1 (unat (size_buf b))
            \<and> b' = b))"
proof (intro conjI impI)
  have source: "owning b \<longrightarrow> get_raw_ptr (moved_from (data_m b)) = nullptr"
    by (cases "data_m b") (simp_all add: owning_def)
  have borrowed: "\<not> owning b \<longrightarrow> moved_from (data_m b) = data_m b"
    by (cases "data_m b") (simp_all add: owning_def)
  show "case Buffer_moved_to IS_GPU_BUILD b (mem_type b) w of
      (r, b', w') \<Rightarrow>
        (\<exists>c. r = Inr c \<and> data c = data b \<and> data_m c = data_m b \<and> size_buf c = size_buf b
              \<and> mem_type c = mem_type b \<and> stream c = stream b \<and> device c = device b
              \<and> owning c = owning b)
        \<and> b' = b\<lparr>data_m := moved_from (data_m b)\<rparr>
        \<and> (owning b \<longrightarrow> data b' = nullptr)
        \<and> (\<not> owning b \<longrightarrow> b' = b)
        \<and> w' = w"
    using source borrowed
    by (simp add: Buffer_moved_to_def data_def size_buf_def mem_type_def stream_def
        device_def owning_def)
next
  assume "memory_type \<noteq> mem_type b
            \<and> placement_available IS_GPU_BUILD w memory_type (device b)"
  then have differ: "memory_type \<noteq> mem_type b"
    and avail: "placement_available IS_GPU_BUILD w memory_type (device b)"
    by simp_all
  from allocate_available [OF avail, of "size_m b"]
  obtain p w1 where alloc:
      "allocate IS_GPU_BUILD (device b) (size_m b) memory_type w = (Inr p, w1)"
    and p: "get_raw_ptr p = brk w" "2 \<le> index p"
      "(if index p mod 2 = 0 then HostMemory else DeviceMemory) = memory_type"
    and w1: "mem w1 = mem w" "brk w1 = brk w + max 1 (unat (size_m b))"
    by blast
  have moved: "Buffer_moved_to IS_GPU_BUILD b memory_type w =
      (Inr \<lparr>device_m = device b, data_m = p, size_m = size_m b, stream_m = stream_m b\<rparr>,
       b, transfer (brk w) (data b) (size_m b) w1)"
    using differ alloc p by (simp add: Buffer_moved_to_def Buffer_copy_transfer data_def)
  show "case Buffer_moved_to IS_GPU_BUILD b memory_type w of
          (r, b', w') \<Rightarrow>
            (\<exists>c. r = Inr c \<and> owning c \<and> mem_type c = memory_type \<and> data c = brk w
                  \<and> size_buf c = size_buf b \<and> stream c = stream b \<and> device c = device b
                  \<and> (\<forall>i < unat (size_buf b). mem w' (data c + i) = mem w (data b + i)))
            \<and> brk w' = brk w + max 1 (unat (size_buf b))
            \<and> b' = b"
    using p w1
    by (simp add: moved owning_def mem_type_def data_def size_buf_def stream_def device_def
        mem_transfer_inside brk_transfer)
qed

text \<open>
  C3, as amended, at the first example buffer, an owning host buffer at address 10. Moved
  to Device, the new buffer is an owning device buffer at the former allocation frontier,
  its element 1 is element 1 of the source, and the source is as before. Moved to Host,
  the new buffer has the pointer 10 and the source is left with the null pointer.
\<close>

theorem move_to_placement_witness:
  "DeviceMemory \<noteq> mem_type example_host
   \<and> placement_available True example_world DeviceMemory (device example_host)
   \<and> (\<exists>c. fst (Buffer_moved_to True example_host DeviceMemory example_world) = Inr c
          \<and> owning c \<and> mem_type c = DeviceMemory \<and> data c = brk example_world
          \<and> mem (snd (snd (Buffer_moved_to True example_host DeviceMemory example_world)))
               (data c + 1) = mem example_world (data example_host + 1))
   \<and> fst (snd (Buffer_moved_to True example_host DeviceMemory example_world)) = example_host
   \<and> owning example_host
   \<and> (\<exists>c. fst (Buffer_moved_to True example_host HostMemory example_world) = Inr c
          \<and> data c = 10 \<and> owning c)
   \<and> data (fst (snd (Buffer_moved_to True example_host HostMemory example_world))) = nullptr
   \<and> snd (snd (Buffer_moved_to True example_host HostMemory example_world)) = example_world"
proof -
  have differ: "DeviceMemory \<noteq> mem_type example_host"
    by (simp add: example_host_def mem_type_def)
  have avail: "placement_available True example_world DeviceMemory (device example_host)"
    by (simp add: placement_available_def example_world_def)
  have len: "1 < unat (size_buf example_host)"
    by (simp add: example_host_def size_buf_def)
  have host: "mem_type example_host = HostMemory"
    by (simp add: example_host_def mem_type_def)
  have own: "owning example_host"
    by (simp add: example_host_def owning_def)
  have at: "data example_host = 10"
    by (simp add: example_host_def data_def)
  from differ avail len host own at
       move_to_placement [where IS_GPU_BUILD = True and b = example_host
                            and memory_type = DeviceMemory and w = example_world]
  show ?thesis
    by (auto simp: case_prod_beta)
qed

section \<open>The copy constructor\<close>

text \<open>
  C7. For every buffer \<open>b\<close> whose storage exists and whose placement can be allocated,
  copy construction returns a new owning buffer of the same \<^verbatim>\<open>size()\<close>, the same
  \<^verbatim>\<open>mem_type()\<close> and the stream of \<open>b\<close>. Its \<^verbatim>\<open>data()\<close> pointer differs from that of \<open>b\<close>
  and its storage shares no address with the storage of \<open>b\<close>; after the construction
  the two buffers are equal element by element, and the elements of \<open>b\<close> are as before.
\<close>

theorem copy_constructed_buffer_is_deep_copy:
  assumes "within w b"
    and "placement_available IS_GPU_BUILD w (mem_type b) (device b)"
  shows "\<exists>c w'. Buffer_copied IS_GPU_BUILD b w = (Inr c, w')
           \<and> owning c \<and> size_buf c = size_buf b \<and> mem_type c = mem_type b
           \<and> stream c = stream b
           \<and> data c \<noteq> data b \<and> storage c \<inter> storage b = {}
           \<and> (\<forall>i < unat (size_buf b).
                 mem w' (data c + i) = mem w' (data b + i)
                 \<and> mem w' (data b + i) = mem w (data b + i))"
proof -
  from Buffer_relocated_available [OF assms(2), of b]
  obtain c w' where built: "Buffer_copied IS_GPU_BUILD b w = (Inr c, w')"
    and c: "owning c" "data c = brk w" "mem_type c = mem_type b" "size_buf c = size_buf b"
      "stream c = stream b"
    and w': "w' = transfer (brk w) (data b) (size_buf b)
                    (snd (allocate IS_GPU_BUILD (device b) (size_buf b) (mem_type b) w))"
    by (auto simp: Buffer_copied_def)
  from assms(1) have below: "data b < brk w" "data b + unat (size_buf b) \<le> brk w"
    by (simp_all add: within_def)
  have distinct: "data c \<noteq> data b"
    using c(2) below(1) by simp
  have apart: "storage c \<inter> storage b = {}"
    using c(2) c(4) below(2) by (auto simp: storage_def)
  have contents: "mem w' (data c + i) = mem w' (data b + i)
                  \<and> mem w' (data b + i) = mem w (data b + i)"
    if "i < unat (size_buf b)" for i
  proof -
    have copied: "mem w' (data c + i) = mem w (data b + i)"
      using that by (simp add: w' c(2) mem_transfer_inside mem_allocate)
    from that below(2)
    have "data b + i \<notin> {brk w ..< brk w + unat (size_buf b)}"
      by simp
    then have kept: "mem w' (data b + i) = mem w (data b + i)"
      by (simp add: w' mem_transfer_outside mem_allocate)
    from copied kept show ?thesis by simp
  qed
  from built c distinct apart contents show ?thesis
    by blast
qed

text \<open>
  C7 at the first example buffer: the copy is an owning host buffer of three elements on
  stream 1 at another address, and its element 2 equals element 2 of the original.
\<close>

theorem copy_constructed_buffer_is_deep_copy_witness:
  "within example_world example_host
   \<and> placement_available False example_world (mem_type example_host) (device example_host)
   \<and> (\<exists>c w'. Buffer_copied False example_host example_world = (Inr c, w')
          \<and> owning c \<and> size_buf c = 3 \<and> mem_type c = HostMemory \<and> stream c = 1
          \<and> data c \<noteq> data example_host
          \<and> mem w' (data c + 2) = mem w' (data example_host + 2))"
proof -
  have inside: "within example_world example_host"
    by (simp add: within_def example_world_def example_host_def data_def size_buf_def)
  have avail: "placement_available False example_world (mem_type example_host)
                 (device example_host)"
    by (simp add: placement_available_def example_host_def mem_type_def)
  have facts: "size_buf example_host = 3" "mem_type example_host = HostMemory"
      "stream example_host = 1" "2 < unat (size_buf example_host)"
    by (simp_all add: example_host_def size_buf_def mem_type_def stream_def)
  from copy_constructed_buffer_is_deep_copy [OF inside avail]
  obtain c w' where built: "Buffer_copied False example_host example_world = (Inr c, w')"
    and c: "owning c" "size_buf c = size_buf example_host"
      "mem_type c = mem_type example_host" "stream c = stream example_host"
      "data c \<noteq> data example_host"
    and contents: "\<forall>i < unat (size_buf example_host).
        mem w' (data c + i) = mem w' (data example_host + i)
        \<and> mem w' (data example_host + i) = mem example_world (data example_host + i)"
    by blast
  from contents facts(4)
  have third: "mem w' (data c + 2) = mem w' (data example_host + 2)"
    by blast
  from built c third facts(1-3)
  have "\<exists>c w'. Buffer_copied False example_host example_world = (Inr c, w')
          \<and> owning c \<and> size_buf c = 3 \<and> mem_type c = HostMemory \<and> stream c = 1
          \<and> data c \<noteq> data example_host
          \<and> mem w' (data c + 2) = mem w' (data example_host + 2)"
    by (intro exI [of _ c] exI [of _ w']) simp
  with inside avail show ?thesis
    by blast
qed

end
